theory Spec2Isabelle
  imports Main
begin

section \<open>Errors\<close>

text \<open>
  Modelled from the spec: the module h2/exceptions.py, which declares \<open>ProtocolError\<close>
  and \<open>FlowControlError\<close>, is not among the source files; the spec names them as the
  two error kinds of the library. \<open>NameError\<close>, \<open>AttributeError\<close>, \<open>ValueError\<close>
  and \<open>IndexError\<close> are Python's own exceptions. The message an exception carries is
  not modelled.
\<close>

datatype error =
    NameError
  | AttributeError
  | ValueError
  | IndexError
  | ProtocolError
  | FlowControlError

section \<open>The connection state machine (h2/connection.py)\<close>

datatype ConnectionState = IDLE | CLIENT_OPEN | SERVER_OPEN | CLOSED

datatype ConnectionInputs =
    SEND_HEADERS
  | SEND_PUSH_PROMISE
  | SEND_DATA
  | SEND_GOAWAY
  | SEND_WINDOW_UPDATE
  | SEND_PING
  | RECV_HEADERS
  | RECV_PUSH_PROMISE
  | RECV_DATA
  | RECV_GOAWAY
  | RECV_WINDOW_UPDATE
  | RECV_PING

subsection \<open>Names and the class body\<close>

text \<open>
  The table \<open>_transitions\<close> is a dictionary display in the body of the class
  \<open>H2ConnectionStateMachine\<close>; Python evaluates it, row by row, when the module is
  imported. Each key names its input as an attribute of a global name, so the model keeps
  the two identifiers of every input as the source spells them and resolves them in the
  module's global namespace. A namespace binds a global name to an enumeration class, a
  class being the list of its members by name. Every state of the table is written
  \<open>ConnectionState.X\<close> for a declared member \<open>X\<close>; the rows hold those as values.
\<close>

type_synonym enum_class = "(string \<times> ConnectionInputs) list"

type_synonym namespace = "(string \<times> enum_class) list"

definition ConnectionInputs_class :: enum_class where
  "ConnectionInputs_class =
    [(''SEND_HEADERS'', SEND_HEADERS),
     (''SEND_PUSH_PROMISE'', SEND_PUSH_PROMISE),
     (''SEND_DATA'', SEND_DATA),
     (''SEND_GOAWAY'', SEND_GOAWAY),
     (''SEND_WINDOW_UPDATE'', SEND_WINDOW_UPDATE),
     (''SEND_PING'', SEND_PING),
     (''RECV_HEADERS'', RECV_HEADERS),
     (''RECV_PUSH_PROMISE'', RECV_PUSH_PROMISE),
     (''RECV_DATA'', RECV_DATA),
     (''RECV_GOAWAY'', RECV_GOAWAY),
     (''RECV_WINDOW_UPDATE'', RECV_WINDOW_UPDATE),
     (''RECV_PING'', RECV_PING)]"

text \<open>
  The global names of connection.py that are bound to an enumeration of inputs when the
  class body runs. (\<open>Enum\<close>, \<open>ProtocolError\<close> and \<open>ConnectionState\<close> are bound too;
  no input of the table is written through them.)
\<close>

definition module_globals :: namespace where
  "module_globals = [(''ConnectionInputs'', ConnectionInputs_class)]"

text \<open>The expression \<open>N.A\<close>: look the name up, then the attribute.\<close>

definition eval_attr :: "namespace \<Rightarrow> string \<times> string \<Rightarrow> error + ConnectionInputs" where
  "eval_attr g e =
    (case map_of g (fst e) of
       None \<Rightarrow> Inl NameError
     | Some cls \<Rightarrow>
         (case map_of cls (snd e) of
            None \<Rightarrow> Inl AttributeError
          | Some v \<Rightarrow> Inr v))"

text \<open>
  A side effect is a function of no argument; what it returns is opaque to the state
  machine and is modelled as a natural number. Every row of the source has \<open>None\<close>
  in that slot.
\<close>

type_synonym side_effect = "unit \<Rightarrow> nat"

type_synonym row =
  "(ConnectionState \<times> (string \<times> string)) \<times> (side_effect option \<times> ConnectionState)"

type_synonym transitions =
  "(ConnectionState \<times> ConnectionInputs) \<rightharpoonup> (side_effect option \<times> ConnectionState)"

definition transition_rows :: "row list" where
  "transition_rows =
    [((IDLE, (''ConnectionInputs'', ''SEND_HEADERS'')), (None, CLIENT_OPEN)),
     ((IDLE, (''ConnectionInputs'', ''RECV_HEADERS'')), (None, SERVER_OPEN)),

     ((CLIENT_OPEN, (''ConnectionInputs'', ''SEND_HEADERS'')), (None, CLIENT_OPEN)),
     ((CLIENT_OPEN, (''ConnectionInputs'', ''SEND_DATA'')), (None, CLIENT_OPEN)),
     ((CLIENT_OPEN, (''ConnectionInputs'', ''SEND_GOAWAY'')), (None, CLOSED)),
     ((CLIENT_OPEN, (''ConnectionInputs'', ''SEND_WINDOW_UPDATE'')), (None, CLIENT_OPEN)),
     ((CLIENT_OPEN, (''ConnectionInputs'', ''SEND_PING'')), (None, CLIENT_OPEN)),
     ((CLIENT_OPEN, (''ConnectionInputs'', ''RECV_HEADERS'')), (None, CLIENT_OPEN)),
     ((CLIENT_OPEN, (''ConnectionInputs'', ''RECV_PUSH_PROMISE'')), (None, CLIENT_OPEN)),
     ((CLIENT_OPEN, (''ConnectionInputs'', ''RECV_DATA'')), (None, CLIENT_OPEN)),
     ((CLIENT_OPEN, (''ConnectionInputs'', ''RECV_GOAWAY'')), (None, CLOSED)),
     ((CLIENT_OPEN, (''ConnectionInputs'', ''RECV_WINDOW_UPDATE'')), (None, CLIENT_OPEN)),
     ((CLIENT_OPEN, (''ConnectionInputs'', ''RECV_PING'')), (None, CLIENT_OPEN)),

     ((SERVER_OPEN, (''ConnectionInputs'', ''SEND_HEADERS'')), (None, SERVER_OPEN)),
     ((SERVER_OPEN, (''ConnectionInputs'', ''SEND_PUSH_PROMISE'')), (None, SERVER_OPEN)),
     ((SERVER_OPEN, (''ConnectionInputs'', ''SEND_DATA'')), (None, SERVER_OPEN)),
     ((SERVER_OPEN, (''ConnectionInputs'', ''SEND_GOAWAY'')), (None, CLOSED)),
     ((SERVER_OPEN, (''ConnectionInputs'', ''SEND_WINDOW_UPDATE'')), (None, SERVER_OPEN)),
     ((SERVER_OPEN, (''ConnectionInputs'', ''SEND_PING'')), (None, SERVER_OPEN)),
     ((SERVER_OPEN, (''ConnectionInputs'', ''RECV_HEADERS'')), (None, SERVER_OPEN)),
     ((SERVER_OPEN, (''ConnectionInputs'', ''RECV_DATA'')), (None, SERVER_OPEN)),
     ((SERVER_OPEN, (''ConnectionInputs'', ''RECV_GOAWAY'')), (None, CLOSED)),
     ((SERVER_OPEN, (''ConnectionInputs'', ''RECV_WINDOW_UPDATE'')), (None, SERVER_OPEN)),
     ((SERVER_OPEN, (''ConnectlionInputs'', ''RECV_PING'')), (None, SERVER_OPEN))]"

text \<open>
  Evaluating a dictionary display: the rows in order, into the dictionary built so far;
  the first expression that raises ends the evaluation, and a key written twice keeps
  the later value.
\<close>

fun eval_rows :: "namespace \<Rightarrow> row list \<Rightarrow> transitions \<Rightarrow> error + transitions" where
  "eval_rows g [] t = Inr t"
| "eval_rows g (((s, e), v) # rows) t =
    (case eval_attr g e of
       Inl err \<Rightarrow> Inl err
     | Inr i \<Rightarrow> eval_rows g rows (t((s, i) \<mapsto> v)))"

text \<open>
  The class attribute \<open>_transitions\<close>, as the class body computes it in the namespace
  \<open>g\<close>. The class, and with it every state machine, exists only when this is a
  dictionary.
\<close>

definition transitions_of :: "namespace \<Rightarrow> error + transitions" where
  "transitions_of g = eval_rows g transition_rows Map.empty"

subsection \<open>The machine\<close>

record H2ConnectionStateMachine =
  state :: ConnectionState

text \<open>\<open>__init__\<close>: a new machine is idle.\<close>

definition init :: H2ConnectionStateMachine where
  "init = \<lparr>state = IDLE\<rparr>"

text \<open>
  The argument of \<open>process_input\<close> is any Python object; the method tells the members
  of \<open>ConnectionInputs\<close> from everything else.
\<close>

datatype argument = Input ConnectionInputs | OtherObject

text \<open>
  \<open>process_input\<close>, with the class's dictionary as a parameter. It returns what the
  call does (an exception, or the value returned: \<open>None\<close> is Python's \<open>None\<close>) and
  the machine after the call.
\<close>

definition process_input ::
  "transitions \<Rightarrow> H2ConnectionStateMachine \<Rightarrow> argument
    \<Rightarrow> (error + nat option) \<times> H2ConnectionStateMachine" where
  "process_input t m a =
    (case a of
       OtherObject \<Rightarrow> (Inl ValueError, m)
     | Input input \<Rightarrow>
         (case t (state m, input) of
            None \<Rightarrow> (Inl ProtocolError, m\<lparr>state := CLOSED\<rparr>)
          | Some (func, target_state) \<Rightarrow>
              (case func of
                 None \<Rightarrow> (Inr None, m\<lparr>state := target_state\<rparr>)
               | Some f \<Rightarrow> (Inr (Some (f ())), m\<lparr>state := target_state\<rparr>))))"

subsection \<open>Using the class\<close>

text \<open>
  A program that uses the state machine imports h2.connection first, and the import runs
  the class body in the namespace \<open>g\<close> of the module: an exception there ends the
  program before a machine exists. Otherwise the program makes a machine and calls
  \<open>process_input\<close> on it once.
\<close>

definition process_on_new_machine ::
  "namespace \<Rightarrow> argument \<Rightarrow> error + ((error + nat option) \<times> H2ConnectionStateMachine)" where
  "process_on_new_machine g a =
    (case transitions_of g of
       Inl e \<Rightarrow> Inl e
     | Inr t \<Rightarrow> Inr (process_input t init a))"



section \<open>The flow-control bound check (h2/utilities.py)\<close>

text \<open>Python integers are unbounded: \<open>int\<close>.\<close>

definition LARGEST_FLOW_CONTROL_WINDOW :: int where
  "LARGEST_FLOW_CONTROL_WINDOW = 2 ^ 31 - 1"

definition guard_increment_window :: "int \<Rightarrow> int \<Rightarrow> error + int" where
  "guard_increment_window current increment =
    (let new_size = current + increment
     in if new_size > LARGEST_FLOW_CONTROL_WINDOW then Inl FlowControlError
        else Inr new_size)"

section \<open>Header blocks (h2/utilities.py)\<close>

text \<open>
  Header names and values are byte strings (the spec's data model: sequences of octets),
  as the HPACK decoder delivers them: a \<open>string\<close> is a list of 8-bit characters. Where
  the source tests a name against a byte literal and the text literal of the same
  spelling, only the byte literal can be equal to it.

  A header field is a 2-tuple, and the class of the tuple is the field's sensitivity.
\<close>

text \<open>
  Modelled from the spec: the classes \<open>HeaderTuple\<close> and \<open>NeverIndexedHeaderTuple\<close>
  come from the hpack library, which is not among the source files. The spec says that
  the difference between an ordinary header tuple and a never-indexed one is a wrapper
  type; \<open>NeverIndexedHeaderTuple\<close> is a subclass of \<open>HeaderTuple\<close>, and a field may
  also be a plain tuple.
\<close>

datatype tuple_class = PlainTuple | HeaderTuple | NeverIndexedHeaderTuple

record header =
  hname :: string
  hvalue :: string
  hclass :: tuple_class

record HeaderValidationFlags =
  is_client :: bool
  is_trailer :: bool
  is_response_header :: bool
  is_push_promise :: bool

subsection \<open>Byte strings\<close>

text \<open>\<open>string.whitespace\<close>: space, tab, line feed, carriage return, VT, FF.\<close>

definition WHITESPACE :: "char set" where
  "WHITESPACE = {CHR '' '', CHR 0x09, CHR 0x0A, CHR 0x0D, CHR 0x0B, CHR 0x0C}"

text \<open>\<open>UPPER_RE = re.compile(b"[A-Z]")\<close>; \<open>UPPER_RE.search\<close> finds a byte of the class.\<close>

definition uppercase :: string where
  "uppercase = ''ABCDEFGHIJKLMNOPQRSTUVWXYZ''"

definition lowercase :: string where
  "lowercase = ''abcdefghijklmnopqrstuvwxyz''"

definition UPPER_RE_search :: "string \<Rightarrow> bool" where
  "UPPER_RE_search b = (\<exists>c \<in> set b. c \<in> set uppercase)"

text \<open>\<open>bytes.lower\<close>: the ASCII capitals become small letters, every other byte stays.\<close>

definition lower_byte :: "char \<Rightarrow> char" where
  "lower_byte c = (case map_of (zip uppercase lowercase) c of Some d \<Rightarrow> d | None \<Rightarrow> c)"

definition lower :: "string \<Rightarrow> string" where
  "lower b = map lower_byte b"

text \<open>\<open>bytes.strip\<close> without an argument removes ASCII whitespace at both ends.\<close>

definition strip :: "string \<Rightarrow> string" where
  "strip b = rev (dropWhile (\<lambda>c. c \<in> WHITESPACE) (rev (dropWhile (\<lambda>c. c \<in> WHITESPACE) b)))"

text \<open>\<open>b.startswith(p)\<close>.\<close>

definition startswith :: "string \<Rightarrow> string \<Rightarrow> bool" where
  "startswith b p = (take (length p) b = p)"

text \<open>
  Indexing a byte string, \<open>b[i]\<close>: a negative index counts from the end, and an index
  out of range raises \<open>IndexError\<close>.
\<close>

definition getitem :: "string \<Rightarrow> int \<Rightarrow> error + char" where
  "getitem b i =
    (if 0 \<le> i \<and> i < int (length b) then Inr (b ! nat i)
     else if i < 0 \<and> - i \<le> int (length b) then Inr (b ! nat (int (length b) + i))
     else Inl IndexError)"

subsection \<open>Constants\<close>

definition CONNECTION_HEADERS :: "string set" where
  "CONNECTION_HEADERS =
    {''connection'', ''proxy-connection'', ''keep-alive'', ''transfer-encoding'', ''upgrade''}"

definition ALLOWED_PSEUDO_HEADER_FIELDS :: "string set" where
  "ALLOWED_PSEUDO_HEADER_FIELDS =
    {'':method'', '':scheme'', '':authority'', '':path'', '':status''}"

definition SECURE_HEADERS :: "string set" where
  "SECURE_HEADERS = {''authorization'', ''proxy-authorization''}"

subsection \<open>Generators\<close>

text \<open>
  The checks are Python generators, each iterating over the one before it. A generator
  that is consumed to its end yields some items and then either finishes or raises; that
  run is the value that models it. A \<open>for\<close> loop over a generator takes the items one
  at a time, so whatever the loop body does with an item happens before the generator
  underneath computes the next one: a check further down the pipeline can raise before
  an earlier check has seen a later field.
\<close>

datatype 'a generator =
    Yield 'a "'a generator"
  | StopIteration
  | Raise error

text \<open>Iterating over a list.\<close>

fun iter :: "'a list \<Rightarrow> 'a generator" where
  "iter [] = StopIteration"
| "iter (x # xs) = Yield x (iter xs)"

text \<open>\<open>list(g)\<close>: the items, unless the generator raises.\<close>

fun list_of :: "'a generator \<Rightarrow> error + 'a list" where
  "list_of StopIteration = Inr []"
| "list_of (Raise e) = Inl e"
| "list_of (Yield x g) =
    (case list_of g of Inl e \<Rightarrow> Inl e | Inr xs \<Rightarrow> Inr (x # xs))"

subsection \<open>Inbound validation\<close>

fun reject_uppercase_header_fields ::
  "header generator \<Rightarrow> HeaderValidationFlags \<Rightarrow> header generator" where
  "reject_uppercase_header_fields StopIteration f = StopIteration"
| "reject_uppercase_header_fields (Raise e) f = Raise e"
| "reject_uppercase_header_fields (Yield h headers) f =
    (if UPPER_RE_search (hname h) then Raise ProtocolError
     else Yield h (reject_uppercase_header_fields headers f))"

text \<open>
  \<open>header[0][0] in _WHITESPACE or header[0][-1] in _WHITESPACE\<close>: the name is indexed
  without a test for emptiness. The value is indexed only when it is not empty.
\<close>

definition name_surrounded :: "string \<Rightarrow> error + bool" where
  "name_surrounded n =
    (case getitem n 0 of
       Inl e \<Rightarrow> Inl e
     | Inr c \<Rightarrow>
         if c \<in> WHITESPACE then Inr True
         else (case getitem n (- 1) of
                 Inl e \<Rightarrow> Inl e
               | Inr d \<Rightarrow> Inr (d \<in> WHITESPACE)))"

definition value_surrounded :: "string \<Rightarrow> error + bool" where
  "value_surrounded v =
    (if v = [] then Inr False
     else (case getitem v 0 of
             Inl e \<Rightarrow> Inl e
           | Inr c \<Rightarrow>
               if c \<in> WHITESPACE then Inr True
               else (case getitem v (- 1) of
                       Inl e \<Rightarrow> Inl e
                     | Inr d \<Rightarrow> Inr (d \<in> WHITESPACE))))"

fun reject_surrounding_whitespace ::
  "header generator \<Rightarrow> HeaderValidationFlags \<Rightarrow> header generator" where
  "reject_surrounding_whitespace StopIteration f = StopIteration"
| "reject_surrounding_whitespace (Raise e) f = Raise e"
| "reject_surrounding_whitespace (Yield h headers) f =
    (case name_surrounded (hname h) of
       Inl e \<Rightarrow> Raise e
     | Inr True \<Rightarrow> Raise ProtocolError
     | Inr False \<Rightarrow>
         (case value_surrounded (hvalue h) of
            Inl e \<Rightarrow> Raise e
          | Inr True \<Rightarrow> Raise ProtocolError
          | Inr False \<Rightarrow> Yield h (reject_surrounding_whitespace headers f)))"

fun reject_te :: "header generator \<Rightarrow> HeaderValidationFlags \<Rightarrow> header generator" where
  "reject_te StopIteration f = StopIteration"
| "reject_te (Raise e) f = Raise e"
| "reject_te (Yield h headers) f =
    (if hname h = ''te'' \<and> lower (hvalue h) \<noteq> ''trailers'' then Raise ProtocolError
     else Yield h (reject_te headers f))"

fun reject_connection_header ::
  "header generator \<Rightarrow> HeaderValidationFlags \<Rightarrow> header generator" where
  "reject_connection_header StopIteration f = StopIteration"
| "reject_connection_header (Raise e) f = Raise e"
| "reject_connection_header (Yield h headers) f =
    (if hname h \<in> CONNECTION_HEADERS then Raise ProtocolError
     else Yield h (reject_connection_header headers f))"

text \<open>\<open>_custom_startswith\<close>: the string that is tested is a byte string.\<close>

definition custom_startswith :: "string \<Rightarrow> string \<Rightarrow> string \<Rightarrow> bool" where
  "custom_startswith test_string bytes_prefix unicode_prefix =
    startswith test_string bytes_prefix"

text \<open>
  \<open>_reject_pseudo_header_fields\<close>: the loop with its two local variables, then the code
  after the loop, which runs only when the generator underneath has finished.
\<close>

fun reject_pseudo_loop ::
  "string set \<Rightarrow> bool \<Rightarrow> header generator \<Rightarrow> HeaderValidationFlags \<Rightarrow> header generator" where
  "reject_pseudo_loop seen_pseudo_header_fields seen_regular_header StopIteration f =
    (if is_trailer f \<and> seen_pseudo_header_fields \<noteq> {} then Raise ProtocolError
     else if is_response_header f \<and> '':status'' \<notin> seen_pseudo_header_fields
       then Raise ProtocolError
     else StopIteration)"
| "reject_pseudo_loop seen_pseudo_header_fields seen_regular_header (Raise e) f = Raise e"
| "reject_pseudo_loop seen_pseudo_header_fields seen_regular_header (Yield h headers) f =
    (if custom_startswith (hname h) '':'' '':'' then
       (if hname h \<in> seen_pseudo_header_fields then Raise ProtocolError
        else if seen_regular_header then Raise ProtocolError
        else if hname h \<notin> ALLOWED_PSEUDO_HEADER_FIELDS then Raise ProtocolError
        else Yield h
          (reject_pseudo_loop (insert (hname h) seen_pseudo_header_fields)
             seen_regular_header headers f))
     else Yield h (reject_pseudo_loop seen_pseudo_header_fields True headers f))"

definition reject_pseudo_header_fields ::
  "header generator \<Rightarrow> HeaderValidationFlags \<Rightarrow> header generator" where
  "reject_pseudo_header_fields headers f = reject_pseudo_loop {} False headers f"

text \<open>
  \<open>_validate_host_authority_header\<close>: \<open>None\<close> is the sentinel for a header that was not
  seen.
\<close>

fun validate_host_authority_loop ::
  "string option \<Rightarrow> string option \<Rightarrow> header generator \<Rightarrow> header generator" where
  "validate_host_authority_loop authority_header_val host_header_val StopIteration =
    (let authority_present = (authority_header_val \<noteq> None);
         host_present = (host_header_val \<noteq> None)
     in if \<not> authority_present \<and> \<not> host_present then Raise ProtocolError
        else if authority_present \<and> host_present
                \<and> authority_header_val \<noteq> host_header_val then Raise ProtocolError
        else StopIteration)"
| "validate_host_authority_loop authority_header_val host_header_val (Raise e) = Raise e"
| "validate_host_authority_loop authority_header_val host_header_val (Yield h headers) =
    (if hname h = '':authority'' then
       Yield h (validate_host_authority_loop (Some (hvalue h)) host_header_val headers)
     else if hname h = ''host'' then
       Yield h (validate_host_authority_loop authority_header_val (Some (hvalue h)) headers)
     else Yield h (validate_host_authority_loop authority_header_val host_header_val headers))"

definition validate_host_authority_header :: "header generator \<Rightarrow> header generator" where
  "validate_host_authority_header headers = validate_host_authority_loop None None headers"

definition check_host_authority_header ::
  "header generator \<Rightarrow> HeaderValidationFlags \<Rightarrow> header generator" where
  "check_host_authority_header headers f =
    (let skip_validation = (is_response_header f \<or> is_trailer f)
     in if skip_validation then headers else validate_host_authority_header headers)"

text \<open>The pipeline of \<open>validate_headers\<close>, before \<open>list\<close> consumes it.\<close>

definition validation_pipeline ::
  "header generator \<Rightarrow> HeaderValidationFlags \<Rightarrow> header generator" where
  "validation_pipeline headers f =
    check_host_authority_header
      (reject_pseudo_header_fields
        (reject_connection_header
          (reject_te
            (reject_surrounding_whitespace
              (reject_uppercase_header_fields headers f) f) f) f) f) f"

definition validate_headers ::
  "header list \<Rightarrow> HeaderValidationFlags \<Rightarrow> error + header list" where
  "validate_headers headers f = list_of (validation_pipeline (iter headers) f)"

subsection \<open>Outbound normalization\<close>

text \<open>
  \<open>isinstance(header, HeaderTuple)\<close> holds for both hpack classes, and
  \<open>header.__class__(...)\<close> builds a tuple of the same class; a plain tuple is rebuilt
  as a plain tuple.
\<close>

fun lowercase_header_names ::
  "header generator \<Rightarrow> HeaderValidationFlags \<Rightarrow> header generator" where
  "lowercase_header_names StopIteration f = StopIteration"
| "lowercase_header_names (Raise e) f = Raise e"
| "lowercase_header_names (Yield h headers) f =
    (if hclass h \<noteq> PlainTuple then
       Yield \<lparr>hname = lower (hname h), hvalue = hvalue h, hclass = hclass h\<rparr>
         (lowercase_header_names headers f)
     else
       Yield \<lparr>hname = lower (hname h), hvalue = hvalue h, hclass = PlainTuple\<rparr>
         (lowercase_header_names headers f))"

fun strip_surrounding_whitespace ::
  "header generator \<Rightarrow> HeaderValidationFlags \<Rightarrow> header generator" where
  "strip_surrounding_whitespace StopIteration f = StopIteration"
| "strip_surrounding_whitespace (Raise e) f = Raise e"
| "strip_surrounding_whitespace (Yield h headers) f =
    (if hclass h \<noteq> PlainTuple then
       Yield \<lparr>hname = strip (hname h), hvalue = strip (hvalue h), hclass = hclass h\<rparr>
         (strip_surrounding_whitespace headers f)
     else
       Yield \<lparr>hname = strip (hname h), hvalue = strip (hvalue h), hclass = PlainTuple\<rparr>
         (strip_surrounding_whitespace headers f))"

fun strip_connection_headers ::
  "header generator \<Rightarrow> HeaderValidationFlags \<Rightarrow> header generator" where
  "strip_connection_headers StopIteration f = StopIteration"
| "strip_connection_headers (Raise e) f = Raise e"
| "strip_connection_headers (Yield h headers) f =
    (if hname h \<notin> CONNECTION_HEADERS then Yield h (strip_connection_headers headers f)
     else strip_connection_headers headers f)"

text \<open>\<open>NeverIndexedHeaderTuple(*header)\<close>: the same name and value, in the never-indexed class.\<close>

fun secure_headers ::
  "header generator \<Rightarrow> HeaderValidationFlags \<Rightarrow> header generator" where
  "secure_headers StopIteration f = StopIteration"
| "secure_headers (Raise e) f = Raise e"
| "secure_headers (Yield h headers) f =
    (if hname h \<in> SECURE_HEADERS then
       Yield (h\<lparr>hclass := NeverIndexedHeaderTuple\<rparr>) (secure_headers headers f)
     else if hname h = ''cookie'' \<and> length (hvalue h) < 20 then
       Yield (h\<lparr>hclass := NeverIndexedHeaderTuple\<rparr>) (secure_headers headers f)
     else Yield h (secure_headers headers f))"

text \<open>\<open>normalize_outbound_headers\<close> returns the last generator of the chain.\<close>

definition normalize_outbound_headers ::
  "header list \<Rightarrow> HeaderValidationFlags \<Rightarrow> header generator" where
  "normalize_outbound_headers headers f =
    secure_headers
      (strip_connection_headers
        (strip_surrounding_whitespace
          (lowercase_header_names (iter headers) f) f) f) f"

subsection \<open>Extractors\<close>

text \<open>
  What \<open>is_informational_response\<close> returns: a boolean from one of its \<open>return\<close>
  statements, or \<open>None\<close> when the loop ends and the function body with it.
\<close>

datatype returned = PyNone | PyBool bool

fun is_informational_response :: "header list \<Rightarrow> returned" where
  "is_informational_response [] = PyNone"
| "is_informational_response (h # headers) =
    (let sigil = '':''; status = '':status''; informational_start = ''1''
     in if \<not> startswith (hname h) sigil then PyBool False
        else if hname h \<noteq> status then is_informational_response headers
        else PyBool (startswith (hvalue h) informational_start))"

section \<open>Observing a generator\<close>

text \<open>The items a generator yields, and how it ends: \<open>None\<close> when it finishes.\<close>

fun items :: "'a generator \<Rightarrow> 'a list" where
  "items StopIteration = []"
| "items (Raise e) = []"
| "items (Yield x g) = x # items g"

fun outcome :: "'a generator \<Rightarrow> error option" where
  "outcome StopIteration = None"
| "outcome (Raise e) = Some e"
| "outcome (Yield x g) = outcome g"

text \<open>A pseudo-header is a field whose name begins with a colon.\<close>

definition is_pseudo :: "header \<Rightarrow> bool" where
  "is_pseudo h = startswith (hname h) '':''"

text \<open>The value of the last field of a block with a given name, if there is one.\<close>

definition last_value :: "string \<Rightarrow> header list \<Rightarrow> string option" where
  "last_value n hs =
    (case filter (\<lambda>h. hname h = n) hs of
       [] \<Rightarrow> None
     | x # xs \<Rightarrow> Some (hvalue (last (x # xs))))"

section \<open>Notions used to state the properties\<close>

text \<open>A plain tuple \<open>(n, v)\<close>.\<close>

definition field :: "string \<Rightarrow> string \<Rightarrow> header" where
  "field n v = \<lparr>hname = n, hvalue = v, hclass = PlainTuple\<rparr>"

text \<open>The flags of a request header block that is received: no flag is set.\<close>

definition request_flags :: HeaderValidationFlags where
  "request_flags =
    \<lparr>is_client = False, is_trailer = False, is_response_header = False,
     is_push_promise = False\<rparr>"

text \<open>
  A field with whitespace around a name that is not empty, or around a value that is not
  empty.
\<close>

definition surrounded :: "header \<Rightarrow> bool" where
  "surrounded h =
    (hd (hname h) \<in> WHITESPACE \<or> last (hname h) \<in> WHITESPACE
     \<or> (hvalue h \<noteq> [] \<and> (hd (hvalue h) \<in> WHITESPACE \<or> last (hvalue h) \<in> WHITESPACE)))"

text \<open>
  The ways in which a block with its flags breaks the discipline of pseudo-headers: a
  pseudo-header name occurs twice; a pseudo-header stands after a regular header; a
  pseudo-header is not one of the five allowed; the block is a trailer and has a
  pseudo-header; the block is a response and has no \<open>:status\<close>.
\<close>

definition breaks_discipline :: "header list \<Rightarrow> HeaderValidationFlags \<Rightarrow> bool" where
  "breaks_discipline B f =
    (\<not> distinct (map hname (filter is_pseudo B))
     \<or> (\<exists>xs r ys p. B = xs @ r # ys \<and> \<not> is_pseudo r \<and> p \<in> set ys \<and> is_pseudo p)
     \<or> (\<exists>h \<in> set B. is_pseudo h \<and> hname h \<notin> ALLOWED_PSEUDO_HEADER_FIELDS)
     \<or> (is_trailer f \<and> (\<exists>h \<in> set B. is_pseudo h))
     \<or> (is_response_header f \<and> \<not> (\<exists>h \<in> set B. hname h = '':status'')))"

text \<open>
  The value a loop variable holds after a block: the value of the last field of that
  name, or what the variable held before when there is none.
\<close>

definition latest :: "string \<Rightarrow> string option \<Rightarrow> header list \<Rightarrow> string option" where
  "latest n x hs = (case last_value n hs of None \<Rightarrow> x | Some v \<Rightarrow> Some v)"



text \<open>
  What outbound normalization is to emit for a field that it keeps: the name in lower
  case and stripped, the value stripped, and the never-indexed class when the name is
  \<open>authorization\<close> or \<open>proxy-authorization\<close>, or is \<open>cookie\<close> with a value of
  fewer than 20 bytes; the field's own class otherwise.
\<close>

definition emitted :: "header \<Rightarrow> header" where
  "emitted h =
    (let n = strip (lower (hname h)); v = strip (hvalue h)
     in \<lparr>hname = n, hvalue = v,
         hclass = (if n \<in> SECURE_HEADERS \<or> (n = ''cookie'' \<and> length v < 20)
                   then NeverIndexedHeaderTuple else hclass h)\<rparr>)"

section \<open>Properties of the connection state machine\<close>

lemmas namespace_defs =
  transitions_of_def transition_rows_def module_globals_def eval_attr_def
  ConnectionInputs_class_def

text \<open>
  C1. The claim asks that every pair of the transition table, (SERVER_OPEN, RECV_PING)
  among them, be accepted with its target state. The code departs from it: in the
  module's own namespace the class body raises \<open>NameError\<close> while it evaluates the
  table, at the row whose input is spelt \<open>ConnectlionInputs.RECV_PING\<close>, so the class
  has no table and a machine cannot be made.
\<close>

theorem transitions_raise_NameError:
  "transitions_of module_globals = Inl NameError"
  by (simp add: namespace_defs)

text \<open>
  The method itself, on whatever table it is given: a pair that is not a key closes the
  machine and raises \<open>ProtocolError\<close>. And no row of the source starts from
  \<open>CLOSED\<close>.
\<close>

lemma process_input_absent:
  "t (state m, i) = None \<Longrightarrow>
     process_input t m (Input i) = (Inl ProtocolError, m\<lparr>state := CLOSED\<rparr>)"
  by (simp add: process_input_def)

lemma no_row_from_CLOSED: "\<forall>r \<in> set transition_rows. fst (fst r) \<noteq> CLOSED"
  by (simp add: transition_rows_def)

text \<open>
  C2. The claim asks that an input whose pair with the state is not in the table raise
  \<open>ProtocolError\<close> with the state \<open>CLOSED\<close>, and that a newly constructed machine
  given \<open>SEND_DATA\<close> do so. The code departs from it: the program that imports the
  module, makes a machine and gives it \<open>SEND_DATA\<close> ends with the \<open>NameError\<close> of
  the class body; no machine is made, no \<open>ProtocolError\<close> is raised and no state is
  \<open>CLOSED\<close>.
\<close>

theorem new_machine_SEND_DATA_NameError:
  "process_on_new_machine module_globals (Input SEND_DATA) = Inl NameError"
  by (simp add: process_on_new_machine_def namespace_defs)


section \<open>Properties of the flow-control bound check\<close>

text \<open>
  C4. \<open>guard_increment_window\<close> returns the sum when the sum is at most 2147483647 and
  raises \<open>FlowControlError\<close> when it is larger; nothing bounds the sum from below, so
  a negative increment and a negative result come back as they are. At the boundary,
  2147483646 and 2 raise, and 0 and 2147483647 give 2147483647.
\<close>

theorem guard_increment_window_bound:
  "(current + increment \<le> 2147483647 \<longrightarrow>
      guard_increment_window current increment = Inr (current + increment))
   \<and> (current + increment > 2147483647 \<longrightarrow>
      guard_increment_window current increment = Inl FlowControlError)
   \<and> guard_increment_window (2 ^ 31 - 2) 2 = Inl FlowControlError
   \<and> guard_increment_window 0 (2 ^ 31 - 1) = Inr (2 ^ 31 - 1)"
  by (simp add: guard_increment_window_def LARGEST_FLOW_CONTROL_WINDOW_def)

theorem guard_increment_window_bound_witness:
  "guard_increment_window 2147483640 7 = Inr 2147483647
   \<and> guard_increment_window 2147483640 8 = Inl FlowControlError
   \<and> guard_increment_window 5 (- 10) = Inr (- 5)"
proof -
  have a: "(2147483640::int) + 7 \<le> 2147483647" by simp
  have b: "(2147483640::int) + 8 > 2147483647" by simp
  have c: "(5::int) + (- 10) \<le> 2147483647" by simp
  from guard_increment_window_bound [of 2147483640 7] a
  have 1: "guard_increment_window 2147483640 7 = Inr 2147483647" by simp
  from guard_increment_window_bound [of 2147483640 8] b
  have 2: "guard_increment_window 2147483640 8 = Inl FlowControlError" by simp
  from guard_increment_window_bound [of 5 "- 10"] c
  have 3: "guard_increment_window 5 (- 10) = Inr (- 5)" by simp
  from 1 2 3 show ?thesis by simp
qed

section \<open>Generators and the stages of the pipeline\<close>

lemma list_of_outcome:
  "list_of g = (case outcome g of None \<Rightarrow> Inr (items g) | Some e \<Rightarrow> Inl e)"
  by (induction g) (auto split: option.splits sum.splits)

lemma items_iter [simp]: "items (iter xs) = xs"
  by (induction xs) auto

lemma outcome_iter [simp]: "outcome (iter xs) = None"
  by (induction xs) auto

lemma list_of_iter [simp]: "list_of (iter xs) = Inr xs"
  by (induction xs) auto

subsection \<open>Indexing the name and the value\<close>

lemma name_surrounded_eq:
  "name_surrounded n =
    (if n = [] then Inl IndexError
     else Inr (hd n \<in> WHITESPACE \<or> last n \<in> WHITESPACE))"
  by (cases n rule: rev_cases)
     (auto simp: name_surrounded_def getitem_def Let_def hd_conv_nth last_conv_nth
        nth_append hd_append split: sum.splits)

lemma value_surrounded_eq:
  "value_surrounded v = Inr (v \<noteq> [] \<and> (hd v \<in> WHITESPACE \<or> last v \<in> WHITESPACE))"
  by (cases v rule: rev_cases)
     (auto simp: value_surrounded_def getitem_def Let_def hd_conv_nth last_conv_nth
        nth_append hd_append split: sum.splits)

lemma reject_surrounding_whitespace_Yield:
  "reject_surrounding_whitespace (Yield h g) f =
     (if hname h = [] then Raise IndexError
      else if surrounded h then Raise ProtocolError
      else Yield h (reject_surrounding_whitespace g f))"
  by (auto simp add: name_surrounded_eq value_surrounded_eq surrounded_def split: bool.splits)

lemma UPPER_RE_search_empty [simp]: "\<not> UPPER_RE_search []"
  by (simp add: UPPER_RE_search_def)

subsection \<open>A stage that finishes has passed every item on\<close>

lemma upper_finishes:
  "outcome (reject_uppercase_header_fields g f) = None \<Longrightarrow>
     outcome g = None \<and> items (reject_uppercase_header_fields g f) = items g"
  by (induction g) (auto split: if_splits)

lemma ws_finishes:
  "outcome (reject_surrounding_whitespace g f) = None \<Longrightarrow>
     outcome g = None \<and> items (reject_surrounding_whitespace g f) = items g"
  by (induction g)
     (auto simp: reject_surrounding_whitespace_Yield
        simp del: reject_surrounding_whitespace.simps(3) split: if_splits)

lemma te_finishes:
  "outcome (reject_te g f) = None \<Longrightarrow>
     outcome g = None \<and> items (reject_te g f) = items g"
  by (induction g) (auto split: if_splits)

lemma conn_finishes:
  "outcome (reject_connection_header g f) = None \<Longrightarrow>
     outcome g = None \<and> items (reject_connection_header g f) = items g"
  by (induction g) (auto split: if_splits)

lemma pseudo_loop_finishes:
  "outcome (reject_pseudo_loop seen reg g f) = None \<Longrightarrow>
     outcome g = None \<and> items (reject_pseudo_loop seen reg g f) = items g"
  by (induction g arbitrary: seen reg) (auto split: if_splits)

lemma host_loop_finishes:
  "outcome (validate_host_authority_loop a b g) = None \<Longrightarrow>
     outcome g = None \<and> items (validate_host_authority_loop a b g) = items g"
  by (induction g arbitrary: a b) (auto simp: Let_def split: if_splits)

lemma check_host_finishes:
  "outcome (check_host_authority_header g f) = None \<Longrightarrow>
     outcome g = None \<and> items (check_host_authority_header g f) = items g"
  by (auto simp: check_host_authority_header_def validate_host_authority_header_def Let_def
      dest: host_loop_finishes split: if_splits)

lemma pipeline_finishes:
  assumes "outcome (validation_pipeline g f) = None"
  shows "outcome g = None \<and> items (validation_pipeline g f) = items g"
  using assms unfolding validation_pipeline_def reject_pseudo_header_fields_def
  by (metis check_host_finishes pseudo_loop_finishes conn_finishes te_finishes ws_finishes
      upper_finishes)

subsection \<open>What a stage can raise\<close>

lemma upper_raises:
  "outcome (reject_uppercase_header_fields g f) = Some e \<Longrightarrow>
     e = ProtocolError \<or> outcome g = Some e"
  by (induction g) (auto split: if_splits)

lemma upper_items: "set (items (reject_uppercase_header_fields g f)) \<subseteq> set (items g)"
  by (induction g) auto

lemma ws_raises:
  "outcome (reject_surrounding_whitespace g f) = Some e \<Longrightarrow>
     e = ProtocolError \<or> outcome g = Some e
     \<or> (e = IndexError \<and> (\<exists>h \<in> set (items g). hname h = []))"
  by (induction g)
     (auto simp: reject_surrounding_whitespace_Yield
        simp del: reject_surrounding_whitespace.simps(3) split: if_splits)

lemma te_raises:
  "outcome (reject_te g f) = Some e \<Longrightarrow> e = ProtocolError \<or> outcome g = Some e"
  by (induction g) (auto split: if_splits)

lemma conn_raises:
  "outcome (reject_connection_header g f) = Some e \<Longrightarrow>
     e = ProtocolError \<or> outcome g = Some e"
  by (induction g) (auto split: if_splits)

lemma pseudo_loop_raises:
  "outcome (reject_pseudo_loop seen reg g f) = Some e \<Longrightarrow>
     e = ProtocolError \<or> outcome g = Some e"
  by (induction g arbitrary: seen reg) (auto split: if_splits)

lemma host_loop_raises:
  "outcome (validate_host_authority_loop a b g) = Some e \<Longrightarrow>
     e = ProtocolError \<or> outcome g = Some e"
  by (induction g arbitrary: a b) (auto simp: Let_def split: if_splits)

lemma check_host_raises:
  "outcome (check_host_authority_header g f) = Some e \<Longrightarrow>
     e = ProtocolError \<or> outcome g = Some e"
  by (auto simp: check_host_authority_header_def validate_host_authority_header_def Let_def
      dest: host_loop_raises split: if_splits)

lemma pipeline_raises:
  assumes "outcome (validation_pipeline g f) = Some e"
  shows "e = ProtocolError \<or> outcome g = Some e
    \<or> (e = IndexError \<and> (\<exists>h \<in> set (items g). hname h = []))"
proof -
  let ?g1 = "reject_uppercase_header_fields g f"
  let ?g2 = "reject_surrounding_whitespace ?g1 f"
  let ?g3 = "reject_te ?g2 f"
  let ?g4 = "reject_connection_header ?g3 f"
  let ?g5 = "reject_pseudo_loop {} False ?g4 f"
  from assms have "e = ProtocolError \<or> outcome ?g5 = Some e"
    unfolding validation_pipeline_def reject_pseudo_header_fields_def
    by (rule check_host_raises)
  then have "e = ProtocolError \<or> outcome ?g4 = Some e"
    using pseudo_loop_raises by blast
  then have "e = ProtocolError \<or> outcome ?g3 = Some e"
    using conn_raises by blast
  then have "e = ProtocolError \<or> outcome ?g2 = Some e"
    using te_raises by blast
  then have "e = ProtocolError \<or> outcome ?g1 = Some e
      \<or> (e = IndexError \<and> (\<exists>h \<in> set (items ?g1). hname h = []))"
    using ws_raises by blast
  then show ?thesis
    using upper_raises upper_items by blast
qed

lemma validate_headers_cases:
  "validate_headers B f = Inr B \<or> validate_headers B f = Inl ProtocolError
    \<or> (validate_headers B f = Inl IndexError \<and> (\<exists>h \<in> set B. hname h = []))"
proof (cases "outcome (validation_pipeline (iter B) f)")
  case None
  with pipeline_finishes [OF None] show ?thesis
    by (simp add: validate_headers_def list_of_outcome)
next
  case (Some e)
  with pipeline_raises [OF Some] show ?thesis
    by (auto simp add: validate_headers_def list_of_outcome)
qed

subsection \<open>The last stage never raises inside its loop\<close>

lemma host_loop_items [simp]: "items (validate_host_authority_loop a b g) = items g"
  by (induction g arbitrary: a b) (auto simp: Let_def)

lemma host_loop_passes_error:
  "outcome g = Some e \<Longrightarrow> outcome (validate_host_authority_loop a b g) = Some e"
  by (induction g arbitrary: a b) (auto simp: Let_def)

lemma check_host_passes_error:
  "outcome g = Some e \<Longrightarrow> outcome (check_host_authority_header g f) = Some e"
  by (simp add: check_host_authority_header_def validate_host_authority_header_def Let_def
      host_loop_passes_error)

lemma check_host_items [simp]: "items (check_host_authority_header g f) = items g"
  by (simp add: check_host_authority_header_def validate_host_authority_header_def Let_def)

subsection \<open>Evaluating the pipeline on a given block\<close>

lemmas validate_defs =
  validate_headers_def validation_pipeline_def reject_pseudo_header_fields_def
  check_host_authority_header_def validate_host_authority_header_def
  name_surrounded_def value_surrounded_def getitem_def UPPER_RE_search_def uppercase_def
  WHITESPACE_def CONNECTION_HEADERS_def ALLOWED_PSEUDO_HEADER_FIELDS_def
  custom_startswith_def startswith_def lower_def lower_byte_def lowercase_def
  field_def request_flags_def Let_def

text \<open>The spec's scenarios 1 to 3 for inbound validation.\<close>

lemma minimal_client_request:
  "validate_headers
     [field '':method'' ''GET'', field '':scheme'' ''https'', field '':authority'' ''x'',
      field '':path'' ''/'']
     request_flags
   = Inr [field '':method'' ''GET'', field '':scheme'' ''https'', field '':authority'' ''x'',
      field '':path'' ''/'']"
  by (simp add: validate_defs)

lemma pseudo_after_regular_rejected:
  "validate_headers [field '':method'' ''GET'', field ''x'' ''1'', field '':path'' ''/'']
     request_flags
   = Inl ProtocolError"
  by (simp add: validate_defs)

lemma connection_header_rejected:
  "validate_headers
     [field '':method'' ''GET'', field '':path'' ''/'', field '':scheme'' ''https'',
      field '':authority'' ''x'', field ''connection'' ''keep-alive'']
     request_flags
   = Inl ProtocolError"
  by (simp add: validate_defs)

section \<open>Properties of inbound validation\<close>

text \<open>
  C5, as amended. For every header block and every value of the flags,
  \<open>validate_headers\<close> returns the block itself, field by field and in order, or raises
  \<open>ProtocolError\<close>, or raises \<open>IndexError\<close>; it never returns any other sequence.
  When no field name of the block is empty it returns the block or raises
  \<open>ProtocolError\<close>. (The claim as written leaves out \<open>IndexError\<close>, which the
  whitespace check raises on an empty name.)
\<close>

theorem validate_headers_returns_block_or_raises:
  "(validate_headers B f = Inr B \<or> validate_headers B f = Inl ProtocolError
      \<or> validate_headers B f = Inl IndexError)
   \<and> ((\<forall>h \<in> set B. hname h \<noteq> []) \<longrightarrow>
        validate_headers B f = Inr B \<or> validate_headers B f = Inl ProtocolError)"
  using validate_headers_cases [of B f] by blast

theorem validate_headers_returns_block_or_raises_witness:
  "validate_headers
     [field '':method'' ''GET'', field '':scheme'' ''https'', field '':authority'' ''x'',
      field '':path'' ''/'']
     request_flags
   = Inr [field '':method'' ''GET'', field '':scheme'' ''https'', field '':authority'' ''x'',
      field '':path'' ''/'']
   \<and> validate_headers [field ''Host'' ''x''] request_flags = Inl ProtocolError"
proof -
  let ?B = "[field '':method'' ''GET'', field '':scheme'' ''https'',
    field '':authority'' ''x'', field '':path'' ''/'']"
  have names: "\<forall>h \<in> set ?B. hname h \<noteq> []"
    by (simp add: field_def)
  have "validate_headers ?B request_flags \<noteq> Inl ProtocolError"
    by (simp add: validate_defs)
  with validate_headers_returns_block_or_raises [of ?B request_flags] names
  have one: "validate_headers ?B request_flags = Inr ?B"
    by blast
  have names': "\<forall>h \<in> set [field ''Host'' ''x'']. hname h \<noteq> []"
    by (simp add: field_def)
  have "validate_headers [field ''Host'' ''x''] request_flags \<noteq> Inr [field ''Host'' ''x'']"
    by (simp add: validate_defs)
  with validate_headers_returns_block_or_raises [of "[field ''Host'' ''x'']" request_flags]
    names'
  have two: "validate_headers [field ''Host'' ''x''] request_flags = Inl ProtocolError"
    by blast
  from one two show ?thesis by simp
qed

text \<open>
  C5 as written fails: a block of one field whose name is empty raises \<open>IndexError\<close>,
  which is neither the block nor a \<open>ProtocolError\<close>.
\<close>

theorem validate_headers_empty_name_not_ProtocolError:
  "validate_headers [field [] ''x''] request_flags = Inl IndexError"
  by (simp add: validate_defs)

subsection \<open>Blocks with an empty name\<close>

lemma five_stages_empty_name:
  assumes "hname h = []" and "\<forall>p \<in> set pre. hname p \<noteq> []"
  shows "outcome (reject_pseudo_loop seen reg
            (reject_connection_header (reject_te (reject_surrounding_whitespace
               (reject_uppercase_header_fields (iter (pre @ h # post)) f) f) f) f) f)
         = (if items (reject_pseudo_loop seen reg
            (reject_connection_header (reject_te (reject_surrounding_whitespace
               (reject_uppercase_header_fields (iter pre) f) f) f) f) f) = pre
            then Some IndexError else Some ProtocolError)"
  using assms
proof (induction pre arbitrary: seen reg)
  case Nil
  then show ?case
    by (simp add: reject_surrounding_whitespace_Yield
        del: reject_surrounding_whitespace.simps(3))
next
  case (Cons p ps)
  then show ?case
    by (simp add: reject_surrounding_whitespace_Yield
        del: reject_surrounding_whitespace.simps(3))
qed

lemma pipeline_empty_name:
  assumes "hname h = []" and "\<forall>p \<in> set pre. hname p \<noteq> []"
  shows "outcome (validation_pipeline (iter (pre @ h # post)) f)
         = (if items (validation_pipeline (iter pre) f) = pre
            then Some IndexError else Some ProtocolError)"
  using five_stages_empty_name [OF assms, of "{}" False post f]
  by (auto simp add: validation_pipeline_def reject_pseudo_header_fields_def
      check_host_passes_error split: if_splits)

lemma validate_headers_empty_name:
  assumes "hname h = []" and "\<forall>p \<in> set pre. hname p \<noteq> []"
  shows "validate_headers (pre @ h # post) f
         = (if items (validation_pipeline (iter pre) f) = pre
            then Inl IndexError else Inl ProtocolError)"
  using pipeline_empty_name [OF assms, of post f]
  by (simp add: validate_headers_def list_of_outcome)

lemma first_empty_name:
  assumes "\<exists>h \<in> set B. hname h = []"
  shows "\<exists>pre h post. B = pre @ h # post \<and> hname h = [] \<and> (\<forall>p \<in> set pre. hname p \<noteq> [])"
  using assms split_list_first_prop [of B "\<lambda>h. hname h = []"] by blast

text \<open>
  C10, as amended. When a block has a field whose name is empty, \<open>validate_headers\<close>
  never returns a result, whatever the flags: it raises \<open>IndexError\<close> or
  \<open>ProtocolError\<close>. The pipeline takes the fields one at a time through all the
  checks, so the whitespace check indexes the first empty name only once the fields
  before it have gone through: the call raises \<open>IndexError\<close> when the pipeline yields
  every field before the first empty name, and raises the \<open>ProtocolError\<close> of an
  earlier field otherwise.
\<close>

theorem validate_headers_empty_name_never_returns:
  assumes "\<exists>h \<in> set B. hname h = []"
  shows "(validate_headers B f = Inl IndexError \<or> validate_headers B f = Inl ProtocolError)
    \<and> (\<forall>pre h post.
          B = pre @ h # post \<and> hname h = [] \<and> (\<forall>p \<in> set pre. hname p \<noteq> []) \<longrightarrow>
            validate_headers B f =
              (if items (validation_pipeline (iter pre) f) = pre then Inl IndexError
               else Inl ProtocolError))"
proof -
  have each: "validate_headers B f =
      (if items (validation_pipeline (iter pre) f) = pre then Inl IndexError
       else Inl ProtocolError)"
    if "B = pre @ h # post" and "hname h = []" and "\<forall>p \<in> set pre. hname p \<noteq> []"
    for pre h post
    using that validate_headers_empty_name [of h pre post f] by simp
  from first_empty_name [OF assms] obtain pre h post where
    "B = pre @ h # post" and "hname h = []" and "\<forall>p \<in> set pre. hname p \<noteq> []"
    by blast
  from each [OF this]
  have "validate_headers B f = Inl IndexError \<or> validate_headers B f = Inl ProtocolError"
    by (simp split: if_splits)
  with each show ?thesis by blast
qed

theorem validate_headers_empty_name_never_returns_witness:
  "validate_headers [field '':authority'' ''x'', field [] ''v'', field ''A'' ''w'']
     request_flags = Inl IndexError"
proof -
  let ?B = "[field '':authority'' ''x'', field [] ''v'', field ''A'' ''w'']"
  have empty: "\<exists>h \<in> set ?B. hname h = []"
    by (simp add: field_def)
  have split: "?B = [field '':authority'' ''x''] @ field [] ''v'' # [field ''A'' ''w'']
      \<and> hname (field [] ''v'') = []
      \<and> (\<forall>p \<in> set [field '':authority'' ''x'']. hname p \<noteq> [])"
    by (simp add: field_def)
  have before: "items (validation_pipeline (iter [field '':authority'' ''x'']) request_flags)
      = [field '':authority'' ''x'']"
    by (simp add: validate_defs)
  from validate_headers_empty_name_never_returns [OF empty, of request_flags] split
  have "validate_headers ?B request_flags =
      (if items (validation_pipeline (iter [field '':authority'' ''x'']) request_flags)
          = [field '':authority'' ''x''] then Inl IndexError else Inl ProtocolError)"
    by blast
  with before show ?thesis by simp
qed

text \<open>
  C10 as written fails: in this block the second name is empty, and the call raises
  \<open>ProtocolError\<close>, for the capital letter of the first name.
\<close>

theorem validate_headers_empty_name_ProtocolError:
  "validate_headers [field ''A'' ''x'', field [] ''y''] request_flags = Inl ProtocolError"
  by (simp add: validate_defs)

subsection \<open>The discipline of pseudo-headers\<close>

lemma pseudo_loop_distinct:
  "outcome (reject_pseudo_loop seen reg g f) = None \<Longrightarrow>
     distinct (map hname (filter is_pseudo (items g)))
     \<and> (\<forall>h \<in> set (items g). is_pseudo h \<longrightarrow> hname h \<notin> seen)"
proof (induction g arbitrary: seen reg)
  case (Yield h g)
  show ?case
  proof (cases "is_pseudo h")
    case True
    with Yield.prems have ok: "hname h \<notin> seen"
      and rest: "outcome (reject_pseudo_loop (insert (hname h) seen) reg g f) = None"
      by (auto simp: is_pseudo_def custom_startswith_def split: if_splits)
    from Yield.IH [OF rest] True ok show ?thesis by auto
  next
    case False
    with Yield.prems have rest: "outcome (reject_pseudo_loop seen True g f) = None"
      by (auto simp: is_pseudo_def custom_startswith_def split: if_splits)
    from Yield.IH [OF rest] False show ?thesis by auto
  qed
qed simp_all

lemma pseudo_loop_allowed:
  "outcome (reject_pseudo_loop seen reg g f) = None \<Longrightarrow>
     (\<forall>h \<in> set (items g). is_pseudo h \<longrightarrow> hname h \<in> ALLOWED_PSEUDO_HEADER_FIELDS \<and> \<not> reg)"
  by (induction g arbitrary: seen reg)
     (auto simp: is_pseudo_def custom_startswith_def split: if_splits)

lemma pseudo_loop_order:
  "outcome (reject_pseudo_loop seen reg g f) = None \<Longrightarrow>
     items g = xs @ r # ys \<Longrightarrow> \<not> is_pseudo r \<Longrightarrow> p \<in> set ys \<Longrightarrow> \<not> is_pseudo p"
proof (induction g arbitrary: seen reg xs)
  case (Yield h g)
  show ?case
  proof (cases xs)
    case Nil
    with Yield.prems have "r = h" and ys: "ys = items g" by simp_all
    with Yield.prems have rest: "outcome (reject_pseudo_loop seen True g f) = None"
      by (auto simp: is_pseudo_def custom_startswith_def split: if_splits)
    from pseudo_loop_allowed [OF rest] ys Yield.prems(4) show ?thesis by blast
  next
    case (Cons x xs')
    with Yield.prems have it: "items g = xs' @ r # ys" by simp
    from Yield.prems(1) obtain seen' reg' where
      rest: "outcome (reject_pseudo_loop seen' reg' g f) = None"
      by (auto split: if_splits)
    from Yield.IH [OF rest it Yield.prems(3) Yield.prems(4)] show ?thesis .
  qed
qed simp_all

lemma pseudo_loop_after:
  "outcome (reject_pseudo_loop seen reg g f) = None \<Longrightarrow>
     (is_trailer f \<longrightarrow> seen = {} \<and> (\<forall>h \<in> set (items g). \<not> is_pseudo h))
     \<and> (is_response_header f \<longrightarrow>
           '':status'' \<in> seen \<or> (\<exists>h \<in> set (items g). hname h = '':status''))"
proof (induction g arbitrary: seen reg)
  case (Yield h g)
  show ?case
  proof (cases "is_pseudo h")
    case True
    with Yield.prems have
      rest: "outcome (reject_pseudo_loop (insert (hname h) seen) reg g f) = None"
      by (auto simp: is_pseudo_def custom_startswith_def split: if_splits)
    from Yield.IH [OF rest] True show ?thesis by auto
  next
    case False
    with Yield.prems have rest: "outcome (reject_pseudo_loop seen True g f) = None"
      by (auto simp: is_pseudo_def custom_startswith_def split: if_splits)
    from Yield.IH [OF rest] False show ?thesis by auto
  qed
qed (auto split: if_splits)

lemma pseudo_loop_discipline:
  assumes "outcome (reject_pseudo_loop {} False g f) = None"
  shows "\<not> breaks_discipline (items g) f"
  using pseudo_loop_distinct [OF assms] pseudo_loop_allowed [OF assms]
    pseudo_loop_order [OF assms] pseudo_loop_after [OF assms]
  unfolding breaks_discipline_def by blast

lemma stage_discipline:
  assumes "breaks_discipline B f"
  shows "list_of (reject_pseudo_header_fields (iter B) f) = Inl ProtocolError"
proof (cases "outcome (reject_pseudo_loop {} False (iter B) f)")
  case None
  from pseudo_loop_discipline [OF None] assms show ?thesis by simp
next
  case (Some e)
  from pseudo_loop_raises [OF Some] Some show ?thesis
    by (simp add: reject_pseudo_header_fields_def list_of_outcome)
qed

lemma accepted_discipline:
  assumes "validate_headers B f = Inr B'"
  shows "\<not> breaks_discipline B f"
proof -
  let ?g4 = "reject_connection_header (reject_te (reject_surrounding_whitespace
               (reject_uppercase_header_fields (iter B) f) f) f) f"
  let ?g5 = "reject_pseudo_loop {} False ?g4 f"
  from assms have "outcome (check_host_authority_header ?g5 f) = None"
    by (simp add: validate_headers_def list_of_outcome validation_pipeline_def
        reject_pseudo_header_fields_def split: option.splits)
  then have 5: "outcome ?g5 = None"
    by (simp add: check_host_finishes)
  then have 4: "outcome ?g4 = None \<and> items ?g5 = items ?g4"
    by (rule pseudo_loop_finishes)
  then have "items ?g4 = B"
    by (metis conn_finishes te_finishes ws_finishes upper_finishes items_iter)
  with pseudo_loop_discipline [OF 5] show ?thesis by simp
qed

text \<open>
  C6, as amended. When a block breaks the discipline of pseudo-headers (a pseudo-header
  name is duplicated, a pseudo-header stands after a regular header, a pseudo-header is
  outside the five allowed names, the trailer flag is set and a pseudo-header was seen,
  or the response flag is set and no \<open>:status\<close> was seen), the check
  \<open>_reject_pseudo_header_fields\<close> on the block raises \<open>ProtocolError\<close>,
  \<open>validate_headers\<close> never returns a result, and \<open>validate_headers\<close> raises
  \<open>ProtocolError\<close> when no field name of the block is empty. (The claim as written
  leaves out the condition on the names: an empty name that the pipeline reaches first
  raises \<open>IndexError\<close>.)
\<close>

theorem pseudo_header_discipline:
  assumes "breaks_discipline B f"
  shows "list_of (reject_pseudo_header_fields (iter B) f) = Inl ProtocolError
    \<and> (validate_headers B f = Inl ProtocolError \<or> validate_headers B f = Inl IndexError)
    \<and> ((\<forall>h \<in> set B. hname h \<noteq> []) \<longrightarrow> validate_headers B f = Inl ProtocolError)"
proof -
  from assms have not_returned: "validate_headers B f \<noteq> Inr B"
    using accepted_discipline by blast
  with validate_headers_cases [of B f] stage_discipline [OF assms]
  show ?thesis by blast
qed

theorem pseudo_header_discipline_witness:
  "validate_headers [field '':path'' ''/'', field '':path'' ''/''] request_flags
     = Inl ProtocolError
   \<and> list_of (reject_pseudo_header_fields
        (iter [field '':path'' ''/'', field '':path'' ''/'']) request_flags)
     = Inl ProtocolError
   \<and> validate_headers [field '':method'' ''GET'', field ''x'' ''1'', field '':path'' ''/'']
        request_flags
     = Inl ProtocolError"
proof -
  let ?B = "[field '':path'' ''/'', field '':path'' ''/'']"
  let ?C = "[field '':method'' ''GET'', field ''x'' ''1'', field '':path'' ''/'']"
  have breaks: "breaks_discipline ?B request_flags"
    by (simp add: breaks_discipline_def is_pseudo_def startswith_def field_def)
  have names: "\<forall>h \<in> set ?B. hname h \<noteq> []"
    by (simp add: field_def)
  have "?C = [field '':method'' ''GET''] @ field ''x'' ''1'' # [field '':path'' ''/'']
      \<and> \<not> is_pseudo (field ''x'' ''1'')
      \<and> field '':path'' ''/'' \<in> set [field '':path'' ''/'']
      \<and> is_pseudo (field '':path'' ''/'')"
    by (simp add: is_pseudo_def startswith_def field_def)
  then have breaks': "breaks_discipline ?C request_flags"
    unfolding breaks_discipline_def by blast
  have names': "\<forall>h \<in> set ?C. hname h \<noteq> []"
    by (simp add: field_def)
  from pseudo_header_discipline [OF breaks] names
    pseudo_header_discipline [OF breaks'] names'
  show ?thesis by blast
qed

text \<open>
  C6 as written fails: in this block \<open>:path\<close> is duplicated, and \<open>validate_headers\<close>
  raises \<open>IndexError\<close>, for the empty name of the first field.
\<close>

theorem duplicate_pseudo_header_IndexError:
  "\<not> distinct (map hname
       (filter is_pseudo [field [] ''x'', field '':path'' ''/'', field '':path'' ''/'']))
   \<and> validate_headers [field [] ''x'', field '':path'' ''/'', field '':path'' ''/'']
        request_flags = Inl IndexError"
  by (simp add: validate_defs is_pseudo_def)

subsection \<open>The agreement of :authority and host\<close>

lemma last_value_Nil [simp]: "last_value n [] = None"
  by (simp add: last_value_def)

lemma last_value_Cons:
  "last_value n (h # hs) =
     (case last_value n hs of
        Some v \<Rightarrow> Some v
      | None \<Rightarrow> if hname h = n then Some (hvalue h) else None)"
  by (auto simp: last_value_def split: list.splits)

lemma latest_Nil [simp]: "latest n x [] = x"
  by (simp add: latest_def)

lemma latest_Cons [simp]:
  "latest n x (h # hs) = latest n (if hname h = n then Some (hvalue h) else x) hs"
  by (simp add: latest_def last_value_Cons split: option.splits)








section \<open>Properties of outbound normalization\<close>

lemma lowercase_iter:
  "lowercase_header_names (iter hs) f = iter (map (\<lambda>h. h\<lparr>hname := lower (hname h)\<rparr>) hs)"
  by (induction hs) auto

lemma strip_iter:
  "strip_surrounding_whitespace (iter hs) f =
     iter (map (\<lambda>h. h\<lparr>hname := strip (hname h), hvalue := strip (hvalue h)\<rparr>) hs)"
  by (induction hs) auto

lemma strip_connection_iter:
  "strip_connection_headers (iter hs) f =
     iter (filter (\<lambda>h. hname h \<notin> CONNECTION_HEADERS) hs)"
  by (induction hs) auto

lemma secure_iter:
  "secure_headers (iter hs) f =
     iter (map (\<lambda>h. if hname h \<in> SECURE_HEADERS \<or> (hname h = ''cookie'' \<and> length (hvalue h) < 20)
                     then h\<lparr>hclass := NeverIndexedHeaderTuple\<rparr> else h) hs)"
  by (induction hs) auto

lemma normalize_list:
  "list_of (normalize_outbound_headers hs f) =
     Inr (map emitted (filter (\<lambda>h. strip (lower (hname h)) \<notin> CONNECTION_HEADERS) hs))"
  by (simp add: normalize_outbound_headers_def lowercase_iter strip_iter
      strip_connection_iter secure_iter filter_map o_def emitted_def Let_def)

lemmas normalize_defs =
  normalize_outbound_headers_def strip_def lower_def lower_byte_def uppercase_def
  lowercase_def WHITESPACE_def CONNECTION_HEADERS_def SECURE_HEADERS_def field_def
  request_flags_def

text \<open>
  C7, as amended. Outbound normalization yields, for each field that it keeps and in
  their order, the field with its name in lower case and stripped and its value
  stripped, in the never-indexed class when that name is \<open>authorization\<close> or
  \<open>proxy-authorization\<close> or when it is \<open>cookie\<close> and that value has fewer than 20
  bytes, and in the class the caller gave it otherwise. So in the output every
  \<open>authorization\<close> and \<open>proxy-authorization\<close> field is never-indexed, and so is every
  \<open>cookie\<close> whose value is shorter than 20 bytes; a \<open>cookie\<close> of 20 bytes or more
  keeps the caller's sensitivity, as every other field does. (The claim as written says
  that a \<open>cookie\<close> is never-indexed only if its value is shorter than 20 bytes.)
\<close>

theorem outbound_sensitivity:
  "\<exists>out. list_of (normalize_outbound_headers hs f) = Inr out
     \<and> out = map emitted (filter (\<lambda>h. strip (lower (hname h)) \<notin> CONNECTION_HEADERS) hs)
     \<and> (\<forall>h \<in> set out. hname h = ''authorization'' \<or> hname h = ''proxy-authorization''
           \<longrightarrow> hclass h = NeverIndexedHeaderTuple)
     \<and> (\<forall>h \<in> set out. hname h = ''cookie'' \<and> length (hvalue h) < 20
           \<longrightarrow> hclass h = NeverIndexedHeaderTuple)"
  by (auto simp add: normalize_list emitted_def Let_def SECURE_HEADERS_def)

theorem outbound_sensitivity_witness:
  "list_of (normalize_outbound_headers
      [field ''Cookie '' '' xxxxxxxxxxxxxxxxxxx  '',
       field ''cookie'' ''xxxxxxxxxxxxxxxxxxxx'',
       field ''Connection'' ''close'',
       \<lparr>hname = ''Authorization'', hvalue = ''Basic dXNlcjpwYXNzd29yZGxvbmdlcg=='',
        hclass = HeaderTuple\<rparr>]
      request_flags)
    = Inr [\<lparr>hname = ''cookie'', hvalue = ''xxxxxxxxxxxxxxxxxxx'',
            hclass = NeverIndexedHeaderTuple\<rparr>,
           field ''cookie'' ''xxxxxxxxxxxxxxxxxxxx'',
           \<lparr>hname = ''authorization'', hvalue = ''Basic dXNlcjpwYXNzd29yZGxvbmdlcg=='',
            hclass = NeverIndexedHeaderTuple\<rparr>]"
proof -
  let ?hs = "[field ''Cookie '' '' xxxxxxxxxxxxxxxxxxx  '',
       field ''cookie'' ''xxxxxxxxxxxxxxxxxxxx'',
       field ''Connection'' ''close'',
       \<lparr>hname = ''Authorization'', hvalue = ''Basic dXNlcjpwYXNzd29yZGxvbmdlcg=='',
        hclass = HeaderTuple\<rparr>]"
  from outbound_sensitivity [of ?hs request_flags]
  have "list_of (normalize_outbound_headers ?hs request_flags)
      = Inr (map emitted (filter (\<lambda>h. strip (lower (hname h)) \<notin> CONNECTION_HEADERS) ?hs))"
    by blast
  then show ?thesis
    by (simp add: emitted_def Let_def strip_def lower_def lower_byte_def uppercase_def
        lowercase_def WHITESPACE_def CONNECTION_HEADERS_def SECURE_HEADERS_def field_def)
qed

text \<open>
  C7 as written fails: a \<open>cookie\<close> of 20 bytes that the caller gave as never-indexed
  is never-indexed in the output, though its value is not shorter than 20 bytes.
\<close>

theorem long_cookie_stays_never_indexed:
  "list_of (normalize_outbound_headers
      [\<lparr>hname = ''cookie'', hvalue = ''xxxxxxxxxxxxxxxxxxxx'',
        hclass = NeverIndexedHeaderTuple\<rparr>]
      request_flags)
    = Inr [\<lparr>hname = ''cookie'', hvalue = ''xxxxxxxxxxxxxxxxxxxx'',
            hclass = NeverIndexedHeaderTuple\<rparr>]
   \<and> \<not> length ''xxxxxxxxxxxxxxxxxxxx'' < (20::nat)"
  by (simp add: normalize_defs)

text \<open>The spec's scenario 4: a cookie of 5 bytes, and a cookie of 20 bytes.\<close>

lemma outbound_cookie_sensitivity:
  "list_of (normalize_outbound_headers [field ''cookie'' ''short''] request_flags)
     = Inr [\<lparr>hname = ''cookie'', hvalue = ''short'', hclass = NeverIndexedHeaderTuple\<rparr>]
   \<and> list_of (normalize_outbound_headers [field ''cookie'' ''xxxxxxxxxxxxxxxxxxxx'']
        request_flags)
     = Inr [field ''cookie'' ''xxxxxxxxxxxxxxxxxxxx'']"
  by (simp add: normalize_defs)

section \<open>Properties of the extractors\<close>

text \<open>
  What \<open>is_informational_response\<close> returns: it looks at the first field that is a
  regular header or is named \<open>:status\<close>. Without such a field the loop ends and the
  function returns \<open>None\<close>; on a regular header it returns \<open>False\<close>; on \<open>:status\<close>
  it returns whether the value begins with \<open>1\<close>.
\<close>

lemma is_informational_response_eq:
  "is_informational_response hs =
     (case dropWhile (\<lambda>h. is_pseudo h \<and> hname h \<noteq> '':status'') hs of
        [] \<Rightarrow> PyNone
      | h # rest \<Rightarrow> PyBool (hname h = '':status'' \<and> startswith (hvalue h) ''1''))"
  by (induction hs) (auto simp: is_pseudo_def Let_def startswith_def)

lemma is_informational_response_boundaries:
  "is_informational_response [field '':status'' ''199''] = PyBool True
   \<and> is_informational_response [field '':status'' ''200''] = PyBool False
   \<and> is_informational_response [field '':status'' ''100''] = PyBool True
   \<and> is_informational_response [field '':status'' ''1''] = PyBool True
   \<and> is_informational_response [field ''x'' ''1'', field '':status'' ''100''] = PyBool False"
  by (simp add: startswith_def field_def)

text \<open>
  C8. The claim asks that \<open>is_informational_response\<close> return false for the empty
  block and for a block whose pseudo-header prefix has no \<open>:status\<close>. The code departs
  from it: on the empty block, and on a block of pseudo-headers without \<open>:status\<close>,
  the loop ends without a \<open>return\<close> statement and the function returns \<open>None\<close>,
  which is not the boolean that its docstring promises.
\<close>

theorem is_informational_response_returns_None:
  "is_informational_response [] = PyNone
   \<and> is_informational_response [field '':method'' ''GET''] = PyNone"
  by (simp add: startswith_def field_def)

end
